theory Spec2Isabelle
  imports Main
begin

section \<open>The chunked reader of \<^verbatim>\<open>src/App.tsx\<close>\<close>

text \<open>
  \<^verbatim>\<open>App\<close> is a React function component.  Its \<^verbatim>\<open>useState\<close> cells and \<^verbatim>\<open>useRef\<close>
  cells are the fields of the record \<open>app\<close>; every event handler, effect and
  asynchronous continuation of the component is a function from \<open>app\<close> to \<open>app\<close>.
  What the component leaves to its surroundings is made explicit:
  \<^item> \<^verbatim>\<open>splitTextIntoChunks\<close> (\<^verbatim>\<open>utils/textHelper\<close>, not part of the sources at hand)
    is a parameter \<open>split\<close> of every function that reaches it;
  \<^item> \<^verbatim>\<open>generateSpeech\<close>, \<^verbatim>\<open>decodeBase64\<close> and \<^verbatim>\<open>decodeAudioData\<close> are answered by
    the environment: a pending call is a \<open>task\<close>, and the events \<open>SpeechSettled\<close> and
    \<open>DecodeSettled\<close> deliver its outcome;
  \<^item> an \<^verbatim>\<open>AudioBufferSourceNode\<close> is a numbered \<open>source\<close>; the list \<open>sounding\<close> holds the
    sources that were started and have neither been stopped nor ended, and the event
    \<open>Ended\<close> delivers a source's \<^verbatim>\<open>onended\<close> notification;
  \<^item> the \<^verbatim>\<open>AudioContext\<close> of \<^verbatim>\<open>initAudioContext\<close> is a device handle outside the
    state modelled here.
\<close>

subsection \<open>Data\<close>

datatype mode = Edit | Read

text \<open>An \<^verbatim>\<open>AudioBuffer\<close> is opaque: the environment names each one by a number.\<close>

type_synonym buffer = nat

text \<open>
  A thrown or rejected value \<^verbatim>\<open>err\<close> (typed \<^verbatim>\<open>any\<close> at line 148), reduced to what the
  \<^verbatim>\<open>catch\<close> block does with it.  On \<^verbatim>\<open>null\<close> and \<^verbatim>\<open>undefined\<close> (\<open>Nullish\<close>) reading
  \<^verbatim>\<open>err.message\<close> throws a \<^verbatim>\<open>TypeError\<close>.  Every other value is \<open>Thrown m\<close>, with \<open>m\<close> the
  text of its \<^verbatim>\<open>message\<close>, or \<open>None\<close> when \<^verbatim>\<open>err.message\<close> is \<^verbatim>\<open>undefined\<close> or another
  falsy value, for which \<^verbatim>\<open>err.message || ""\<close> is the empty string.
\<close>

datatype js_error = Nullish | Thrown "string option"

datatype 'a settled = Resolved 'a | Rejected js_error

text \<open>
  \<^verbatim>\<open>playChunk\<close> is memoised by \<^verbatim>\<open>useCallback(..., [chunks, selectedVoice])\<close>: the function
  in use is the one created by the last render in which \<^verbatim>\<open>chunks\<close> or
  \<^verbatim>\<open>selectedVoice\<close> changed, and it reads the variables of that render.  A \<open>closure\<close>
  holds the four state variables that \<^verbatim>\<open>playChunk\<close>, its \<^verbatim>\<open>getAudioBufferForChunk\<close> and
  the \<^verbatim>\<open>onended\<close> handler it installs read from their defining render.
\<close>

record closure =
  cl_chunks :: "string list"
  cl_selectedVoice :: string
  cl_activeChunkIndex :: int
  cl_isPlaying :: bool

text \<open>
  A pending \<^verbatim>\<open>getAudioBufferForChunk(index, textChunks)\<close>: who awaits it (\<^verbatim>\<open>playChunk\<close>
  at line 108, or the prefetch of line 145), its \<^verbatim>\<open>index\<close>, the render it runs in and
  the \<^verbatim>\<open>await\<close> it is suspended at (line 87 or line 92).
\<close>

datatype purpose = ForPlay | ForPrefetch

datatype stage = AwaitSpeech | AwaitDecode

record task =
  purpose :: purpose
  index :: int
  env :: closure
  stage :: stage

text \<open>A source node created at lines 119-137, with what its \<^verbatim>\<open>onended\<close> handler reads.\<close>

record source =
  src_buffer :: buffer
  src_index :: int
  src_env :: closure

text \<open>
  The component's state.  \<open>chunksId\<close> counts the calls of \<^verbatim>\<open>setChunks\<close>: each call passes
  a new array, and React compares arrays by identity.  \<open>tasks\<close>, \<open>sources\<close>, \<open>sounding\<close>
  and \<open>fresh\<close> are the environment's side (pending calls, created source nodes, the
  nodes that sound, the next unused number); \<open>synthCalls\<close> records every call of
  \<^verbatim>\<open>generateSpeech(chunkText, selectedVoice)\<close> and \<open>cacheClears\<close> counts the calls of
  \<^verbatim>\<open>audioCacheRef.current.clear()\<close>.
\<close>

record app =
  "text" :: string
  selectedVoice :: string
  isLoading :: bool
  isPlaying :: bool
  error :: "string option"
  mode :: mode
  chunks :: "string list"
  chunksId :: nat
  activeChunkIndex :: int
  playChunkEnv :: closure
  sourceNodeRef :: "nat option"
  audioCacheRef :: "string \<rightharpoonup> buffer"
  tasks :: "(nat \<times> task) list"
  sources :: "(nat \<times> source) list"
  sounding :: "nat list"
  synthCalls :: "(string option \<times> string) list"
  cacheClears :: nat
  fresh :: nat

datatype event =
    SetText string
  | ChangeVoice string
  | PlayPause
  | Next
  | Prev
  | ModeChange mode
  | SpeechSettled nat "unit settled"
  | DecodeSettled nat "buffer settled"
  | Ended nat

subsection \<open>Strings\<close>

text \<open>
  A character is a UTF-16 code unit below 256.  \<^verbatim>\<open>String.prototype.trim\<close> removes white
  space and line terminators from both ends; below 256 these are the code units 9 to 13,
  32 and 160.
\<close>

definition isWhiteSpace :: "char \<Rightarrow> bool" where
  "isWhiteSpace c =
     (let n = (of_char c :: nat) in (9 \<le> n \<and> n \<le> 13) \<or> n = 32 \<or> n = 160)"

definition trim :: "string \<Rightarrow> string" where
  "trim t = rev (dropWhile isWhiteSpace (rev (dropWhile isWhiteSpace t)))"

text \<open>
  The decimal digits of a number, as the template literal of line 80 prints an index
  (indices stay far below \<open>10\<^sup>2\<^sup>1\<close>, where JavaScript changes to exponent notation).
\<close>

function showNat :: "nat \<Rightarrow> string" where
  "showNat n =
     (if n < 10 then [''0123456789'' ! n]
      else showNat (n div 10) @ [''0123456789'' ! (n mod 10)])"
  by pat_completeness auto
termination
  by (relation "measure id") auto

declare showNat.simps [simp del]

definition showInt :: "int \<Rightarrow> string" where
  "showInt i = (if i < 0 then CHR ''-'' # showNat (nat (- i)) else showNat (nat i))"

text \<open>\<^verbatim>\<open>textChunks[index]\<close>: \<^verbatim>\<open>undefined\<close> (here \<open>None\<close>) outside the array.\<close>

definition chunkAt :: "string list \<Rightarrow> int \<Rightarrow> string option" where
  "chunkAt cs i = (if 0 \<le> i \<and> i < int (length cs) then Some (cs ! nat i) else None)"

subsection \<open>The audio functions (lines 67-154)\<close>

text \<open>
  \<^verbatim>\<open>stopAudio\<close> (lines 67-77).  Every node that \<^verbatim>\<open>sourceNodeRef\<close> holds was started right
  after it was stored (lines 139-140), so its \<^verbatim>\<open>stop()\<close> does not throw; whatever the
  \<^verbatim>\<open>try\<close> block does, the reference is cleared.
\<close>

definition stopAudio :: "app \<Rightarrow> app" where
  "stopAudio s =
     (case sourceNodeRef s of
        None \<Rightarrow> s
      | Some n \<Rightarrow> s\<lparr>sourceNodeRef := None, sounding := removeAll n (sounding s)\<rparr>)"

text \<open>
  \<^verbatim>\<open>getAudioBufferForChunk\<close> up to its first \<^verbatim>\<open>await\<close>: on a cache hit the buffer, otherwise
  the call of \<^verbatim>\<open>generateSpeech\<close> and a task waiting for it.  \<open>p\<close> says which caller
  awaits the promise.
\<close>

definition cacheKey :: "closure \<Rightarrow> int \<Rightarrow> string" where
  "cacheKey cl i = cl_selectedVoice cl @ ''-'' @ showInt i"

definition getAudioBufferForChunk ::
    "purpose \<Rightarrow> closure \<Rightarrow> int \<Rightarrow> app \<Rightarrow> buffer option \<times> app" where
  "getAudioBufferForChunk p cl i s =
     (case audioCacheRef s (cacheKey cl i) of
        Some b \<Rightarrow> (Some b, s)
      | None \<Rightarrow>
          (None,
           s\<lparr>synthCalls := synthCalls s @ [(chunkAt (cl_chunks cl) i, cl_selectedVoice cl)],
             tasks := tasks s @
               [(fresh s, \<lparr>purpose = p, index = i, env = cl, stage = AwaitSpeech\<rparr>)],
             fresh := Suc (fresh s)\<rparr>))"

text \<open>
  \<^verbatim>\<open>playChunk\<close> after its \<^verbatim>\<open>await\<close> returned the buffer \<open>b\<close> (lines 110-146).  The
  \<^verbatim>\<open>if\<close> of line 111 has an empty body.
\<close>

definition playChunk_resume :: "closure \<Rightarrow> int \<Rightarrow> buffer \<Rightarrow> app \<Rightarrow> app" where
  "playChunk_resume cl i b s =
     (let s1 = stopAudio s;
          n = fresh s1;
          s2 = s1\<lparr>sources := sources s1 @
                    [(n, \<lparr>src_buffer = b, src_index = i, src_env = cl\<rparr>)],
                  sourceNodeRef := Some n,
                  sounding := n # sounding s1,
                  fresh := Suc n,
                  isLoading := False\<rparr>
      in if i + 1 < int (length (cl_chunks cl))
         then snd (getAudioBufferForChunk ForPrefetch cl (i + 1) s2)
         else s2)"

text \<open>
  The \<^verbatim>\<open>catch\<close> block of \<^verbatim>\<open>playChunk\<close> (lines 148-153).  For a \<open>Nullish\<close> value the
  argument of \<^verbatim>\<open>setError\<close> at line 150 throws before any of the three setters is called:
  the state stays as it is and the promise of \<^verbatim>\<open>playChunk\<close>, which nobody awaits, is
  rejected.
\<close>

definition playChunk_catch :: "js_error \<Rightarrow> app \<Rightarrow> app" where
  "playChunk_catch err s =
     (case err of
        Nullish \<Rightarrow> s
      | Thrown m \<Rightarrow>
          s\<lparr>error := Some (''Failed to load audio. '' @ (case m of None \<Rightarrow> [] | Some t \<Rightarrow> t)),
            isLoading := False,
            isPlaying := False\<rparr>)"

text \<open>
  \<^verbatim>\<open>playChunk(index)\<close> (lines 98-108).  An \<^verbatim>\<open>await\<close> of a promise that is already
  resolved resumes before any other event, so on a cache hit the rest of the function
  runs at once.
\<close>

definition playChunk :: "closure \<Rightarrow> int \<Rightarrow> app \<Rightarrow> app" where
  "playChunk cl i s =
     (if i < 0 \<or> i \<ge> int (length (cl_chunks cl)) then s\<lparr>isPlaying := False\<rparr>
      else
        (case getAudioBufferForChunk ForPlay cl i (s\<lparr>error := None, isLoading := True\<rparr>) of
           (Some b, s1) \<Rightarrow> playChunk_resume cl i b s1
         | (None, s1) \<Rightarrow> s1))"

text \<open>The \<^verbatim>\<open>onended\<close> handler of lines 123-137.\<close>

definition onended :: "source \<Rightarrow> app \<Rightarrow> app" where
  "onended src s =
     (if cl_activeChunkIndex (src_env src) = src_index src \<and> cl_isPlaying (src_env src)
      then
        (if activeChunkIndex s + 1 < int (length (cl_chunks (src_env src)))
         then s\<lparr>activeChunkIndex := activeChunkIndex s + 1\<rparr>
         else s\<lparr>isPlaying := False\<rparr>)
      else s)"

subsection \<open>Rendering and effects (lines 41-54, 98-168)\<close>

text \<open>
  A render after the state \<open>prev\<close> of the previous render: \<^verbatim>\<open>useCallback\<close> makes a new
  \<^verbatim>\<open>playChunk\<close> when one of its dependencies changed.
\<close>

definition render :: "app \<Rightarrow> app \<Rightarrow> app" where
  "render prev s =
     (if chunksId s \<noteq> chunksId prev \<or> selectedVoice s \<noteq> selectedVoice prev
      then s\<lparr>playChunkEnv :=
               \<lparr>cl_chunks = chunks s, cl_selectedVoice = selectedVoice s,
                cl_activeChunkIndex = activeChunkIndex s, cl_isPlaying = isPlaying s\<rparr>\<rparr>
      else s)"

text \<open>
  The three effects with dependencies: lines 42-47 (\<^verbatim>\<open>[text, mode]\<close>), lines 50-54
  (\<^verbatim>\<open>[selectedVoice]\<close>) and lines 157-168 (\<^verbatim>\<open>[activeChunkIndex, isPlaying, mode,
  chunks.length]\<close>), run in this order.  Each reads the state variables of its render
  \<open>r\<close> and acts on the state \<open>a\<close> that the effects before it left: a reference
  (\<^verbatim>\<open>useRef\<close>) changes at once, a state variable for the next render.  The cleanup on
  unmount (lines 32-39) is not modelled.
\<close>

definition effect_text_mode :: "app \<Rightarrow> app \<Rightarrow> app" where
  "effect_text_mode r a =
     (if mode r = Edit
      then a\<lparr>chunks := [], chunksId := Suc (chunksId a),
             audioCacheRef := Map.empty, cacheClears := Suc (cacheClears a)\<rparr>
      else a)"

definition effect_selectedVoice :: "app \<Rightarrow> app" where
  "effect_selectedVoice a =
     (let a1 = stopAudio a
      in a1\<lparr>isPlaying := False,
            audioCacheRef := Map.empty, cacheClears := Suc (cacheClears a1)\<rparr>)"

definition effect_playback :: "app \<Rightarrow> app \<Rightarrow> app" where
  "effect_playback r a =
     (if isPlaying r \<and> mode r = Read \<and> length (chunks r) > 0
      then playChunk (playChunkEnv r) (activeChunkIndex r) a
      else stopAudio a)"

definition effects :: "app \<Rightarrow> app \<Rightarrow> app" where
  "effects prev r =
     (let a1 = (if text r \<noteq> text prev \<or> mode r \<noteq> mode prev
                then effect_text_mode r r else r);
          a2 = (if selectedVoice r \<noteq> selectedVoice prev
                then effect_selectedVoice a1 else a1)
      in if activeChunkIndex r \<noteq> activeChunkIndex prev \<or> isPlaying r \<noteq> isPlaying prev
            \<or> mode r \<noteq> mode prev \<or> length (chunks r) \<noteq> length (chunks prev)
         then effect_playback r a2 else a2)"

text \<open>
  One round: render the pending state \<open>s\<close>, then run the effects whose dependencies
  differ from the previous render \<open>prev\<close>.  The state they leave is pending for the next
  round.  The effects can only lower \<open>isPlaying\<close> and empty the chunks, after which the
  playback effect stops the audio and nothing changes any more: three rounds reach the
  state at rest (\<open>flush_stable\<close> below).
\<close>

definition round :: "app \<times> app \<Rightarrow> app \<times> app" where
  "round ps = (let r = render (fst ps) (snd ps) in (r, effects (fst ps) r))"

definition flush :: "app \<Rightarrow> app \<Rightarrow> app" where
  "flush prev s = snd (round (round (round (prev, s))))"

subsection \<open>Event handlers (lines 170-213) and continuations\<close>

definition handlePlayPause :: "(string \<Rightarrow> string list) \<Rightarrow> app \<Rightarrow> app" where
  "handlePlayPause split s =
     (if trim (text s) = [] then s\<lparr>error := Some ''Please enter text to read.''\<rparr>
      else if mode s = Edit then
        (let newChunks = split (text s)
         in if length newChunks = 0 then s
            else s\<lparr>chunks := newChunks, chunksId := Suc (chunksId s),
                   activeChunkIndex := 0, mode := Read, isPlaying := True\<rparr>)
      else s\<lparr>isPlaying := \<not> isPlaying s\<rparr>)"

definition handleNext :: "app \<Rightarrow> app" where
  "handleNext s =
     (if activeChunkIndex s < int (length (chunks s)) - 1
      then (stopAudio s)\<lparr>activeChunkIndex := activeChunkIndex s + 1, isPlaying := True\<rparr>
      else s)"

definition handlePrev :: "app \<Rightarrow> app" where
  "handlePrev s =
     (if activeChunkIndex s > 0
      then (stopAudio s)\<lparr>activeChunkIndex := activeChunkIndex s - 1, isPlaying := True\<rparr>
      else s)"

definition handleModeChange :: "mode \<Rightarrow> app \<Rightarrow> app" where
  "handleModeChange newMode s =
     (if newMode = Edit then stopAudio (s\<lparr>mode := newMode, isPlaying := False\<rparr>)
      else s\<lparr>mode := newMode\<rparr>)"

definition removeTask :: "nat \<Rightarrow> app \<Rightarrow> app" where
  "removeTask k s = s\<lparr>tasks := filter (\<lambda>e. fst e \<noteq> k) (tasks s)\<rparr>"

text \<open>
  A rejected \<^verbatim>\<open>getAudioBufferForChunk\<close>: \<^verbatim>\<open>playChunk\<close> catches it, the prefetch logs it
  (\<^verbatim>\<open>.catch(e => console.log(...))\<close>).
\<close>

definition rejected :: "nat \<Rightarrow> task \<Rightarrow> js_error \<Rightarrow> app \<Rightarrow> app" where
  "rejected k t err s =
     (case purpose t of
        ForPlay \<Rightarrow> playChunk_catch err (removeTask k s)
      | ForPrefetch \<Rightarrow> removeTask k s)"

text \<open>
  \<^verbatim>\<open>generateSpeech\<close> settles (line 87).  When it resolves, lines 89-92 start decoding; a
  failure of \<^verbatim>\<open>decodeBase64\<close> or \<^verbatim>\<open>decodeAudioData\<close> arrives as a rejected
  \<open>DecodeSettled\<close>.
\<close>

definition speechSettled :: "nat \<Rightarrow> unit settled \<Rightarrow> app \<Rightarrow> app" where
  "speechSettled k r s =
     (case map_of (tasks s) k of
        None \<Rightarrow> s
      | Some t \<Rightarrow>
          (if stage t \<noteq> AwaitSpeech then s
           else
             (case r of
                Rejected err \<Rightarrow> rejected k t err s
              | Resolved u \<Rightarrow>
                  s\<lparr>tasks := map (\<lambda>e. if fst e = k then (k, t\<lparr>stage := AwaitDecode\<rparr>) else e)
                               (tasks s)\<rparr>)))"

text \<open>Decoding settles (line 92); lines 94-95 store and return the buffer.\<close>

definition decodeSettled :: "nat \<Rightarrow> buffer settled \<Rightarrow> app \<Rightarrow> app" where
  "decodeSettled k r s =
     (case map_of (tasks s) k of
        None \<Rightarrow> s
      | Some t \<Rightarrow>
          (if stage t \<noteq> AwaitDecode then s
           else
             (case r of
                Rejected err \<Rightarrow> rejected k t err s
              | Resolved b \<Rightarrow>
                  (let s1 = (removeTask k s)
                              \<lparr>audioCacheRef := (audioCacheRef s)(cacheKey (env t) (index t) \<mapsto> b)\<rparr>
                   in case purpose t of
                        ForPlay \<Rightarrow> playChunk_resume (env t) (index t) b s1
                      | ForPrefetch \<Rightarrow> s1))))"

text \<open>
  The \<^verbatim>\<open>ended\<close> event of a source: it leaves \<open>sounding\<close> and its handler runs.  Each
  source delivers the event at most once.  The Web Audio API also delivers it after
  \<^verbatim>\<open>stop()\<close>, so the event is accepted for every source still in \<open>sources\<close>; a natural
  end is the event of a source that is in \<open>sounding\<close>.
\<close>

definition ended :: "nat \<Rightarrow> app \<Rightarrow> app" where
  "ended n s =
     (case map_of (sources s) n of
        None \<Rightarrow> s
      | Some src \<Rightarrow>
          onended src
            (s\<lparr>sources := filter (\<lambda>e. fst e \<noteq> n) (sources s),
               sounding := removeAll n (sounding s)\<rparr>))"

definition handle :: "(string \<Rightarrow> string list) \<Rightarrow> event \<Rightarrow> app \<Rightarrow> app" where
  "handle split e s =
     (case e of
        SetText t \<Rightarrow> s\<lparr>text := t\<rparr>
      | ChangeVoice v \<Rightarrow> s\<lparr>selectedVoice := v\<rparr>
      | PlayPause \<Rightarrow> handlePlayPause split s
      | Next \<Rightarrow> handleNext s
      | Prev \<Rightarrow> handlePrev s
      | ModeChange m \<Rightarrow> handleModeChange m s
      | SpeechSettled k r \<Rightarrow> speechSettled k r s
      | DecodeSettled k r \<Rightarrow> decodeSettled k r s
      | Ended n \<Rightarrow> ended n s)"

text \<open>One event: its handler, then rendering and effects until the component rests.\<close>

definition step :: "(string \<Rightarrow> string list) \<Rightarrow> event \<Rightarrow> app \<Rightarrow> app" where
  "step split e s = flush s (handle split e s)"

fun run :: "(string \<Rightarrow> string list) \<Rightarrow> event list \<Rightarrow> app \<Rightarrow> app" where
  "run split [] s = s"
| "run split (e # es) s = run split es (step split e s)"

text \<open>
  The component once mounted (lines 12-29).  The effects of the first render find no
  audio to stop and an empty cache to clear, and they set the chunks to an empty array
  again; the counters \<open>chunksId\<close> and \<open>cacheClears\<close> start at 0 from there.
  \<^verbatim>\<open>VOICE_OPTIONS[0].id\<close> is \<^verbatim>\<open>'Puck'\<close> (\<^verbatim>\<open>src/types.ts\<close>).
\<close>

definition initial :: app where
  "initial =
     \<lparr>text = [], selectedVoice = ''Puck'', isLoading = False, isPlaying = False,
      error = None, mode = Edit, chunks = [], chunksId = 0, activeChunkIndex = 0,
      playChunkEnv = \<lparr>cl_chunks = [], cl_selectedVoice = ''Puck'',
                      cl_activeChunkIndex = 0, cl_isPlaying = False\<rparr>,
      sourceNodeRef = None, audioCacheRef = Map.empty, tasks = [], sources = [],
      sounding = [], synthCalls = [], cacheClears = 0, fresh = 0\<rparr>"

subsection \<open>Instances of the splitter and predicates for the proofs\<close>

text \<open>
  Modelled from the spec: \<^verbatim>\<open>splitIntoChunks\<close> is pure and deterministic and may return the
  empty sequence (section 6), and section 8 has a text split into \<^verbatim>\<open>"A."\<close>, \<^verbatim>\<open>"B."\<close>,
  \<^verbatim>\<open>"C."\<close>.  \<open>sentences\<close> cuts after every full stop and \<open>noChunks\<close> returns no chunk;
  they stand for the parameter \<open>split\<close> at concrete inputs only.
\<close>

fun dotChunks :: "string \<Rightarrow> string \<Rightarrow> string list" where
  "dotChunks acc [] = (if acc = [] then [] else [acc])"
| "dotChunks acc (c # cs) =
     (if c = CHR ''.'' then (acc @ [c]) # dotChunks [] cs else dotChunks (acc @ [c]) cs)"

definition sentences :: "string \<Rightarrow> string list" where
  "sentences t = dotChunks [] t"

definition noChunks :: "string \<Rightarrow> string list" where
  "noChunks t = []"

text \<open>The dependencies of all effects and of \<^verbatim>\<open>useCallback\<close> agree in two states.\<close>

definition same_deps :: "app \<Rightarrow> app \<Rightarrow> bool" where
  "same_deps a b \<longleftrightarrow>
     text a = text b \<and> mode a = mode b \<and> selectedVoice a = selectedVoice b \<and>
     activeChunkIndex a = activeChunkIndex b \<and> isPlaying a = isPlaying b \<and>
     length (chunks a) = length (chunks b) \<and> chunksId a = chunksId b"

text \<open>Text, mode and voice stand as in the previous render.\<close>

definition quiet :: "app \<Rightarrow> app \<Rightarrow> bool" where
  "quiet p c \<longleftrightarrow> text c = text p \<and> mode c = mode p \<and> selectedVoice c = selectedVoice p"

text \<open>
  What the effects of one round can change in the dependencies: they may lower
  \<open>isPlaying\<close> and may empty the chunks, nothing else.
\<close>

definition settling :: "app \<Rightarrow> app \<Rightarrow> bool" where
  "settling r a \<longleftrightarrow>
     text a = text r \<and> mode a = mode r \<and> selectedVoice a = selectedVoice r \<and>
     activeChunkIndex a = activeChunkIndex r \<and>
     (isPlaying a = isPlaying r \<or> \<not> isPlaying a) \<and>
     ((chunks a = chunks r \<and> chunksId a = chunksId r) \<or> chunks a = [])"

text \<open>Nothing sounds, or the one source that sounds is the one \<^verbatim>\<open>sourceNodeRef\<close> holds.\<close>

definition one_source :: "app \<Rightarrow> bool" where
  "one_source s \<longleftrightarrow> sounding s = [] \<or> map Some (sounding s) = [sourceNodeRef s]"

text \<open>
  In edit mode the cache holds nothing.  A decoding that completes while the component
  is in edit mode is a late write: line 94 stores its buffer after the effect of lines
  42-47 cleared the cache.  \<open>no_late_write\<close> says that a run from \<open>s\<close> has none.
\<close>

definition edit_clean :: "app \<Rightarrow> bool" where
  "edit_clean s \<longleftrightarrow> (mode s = Edit \<longrightarrow> audioCacheRef s = Map.empty)"

fun late_write :: "app \<Rightarrow> event \<Rightarrow> bool" where
  "late_write s (DecodeSettled k (Resolved b)) = (mode s = Edit)"
| "late_write s e = False"

fun no_late_write :: "(string \<Rightarrow> string list) \<Rightarrow> event list \<Rightarrow> app \<Rightarrow> bool" where
  "no_late_write split [] s = True"
| "no_late_write split (e # es) s =
     (\<not> late_write s e \<and> no_late_write split es (step split e s))"

text \<open>Three chunks, the first being fetched: the state after entering read mode.\<close>

definition loading0 :: app where
  "loading0 = run sentences [SetText ''A.B.C.'', PlayPause] initial"

text \<open>The speech for the first chunk arrived and is being decoded.\<close>

definition decoding0 :: app where
  "decoding0 = run sentences [SpeechSettled 0 (Resolved ())] loading0"

text \<open>
  The state in which \<^verbatim>\<open>playChunk\<close> resumes once decoding has succeeded: no call is
  pending any more.
\<close>

definition decoded0 :: app where
  "decoded0 = removeTask 0 decoding0"

text \<open>The first chunk sounds and the second is being prefetched.\<close>

definition sounding0 :: app where
  "sounding0 =
     run sentences [SpeechSettled 0 (Resolved ()), DecodeSettled 0 (Resolved 100)] loading0"

text \<open>
  The prefetch of the second chunk completed, the first chunk ended by itself, the second
  chunk sounds and the third is in the cache.
\<close>

definition sounding1 :: app where
  "sounding1 =
     run sentences
       [SpeechSettled 2 (Resolved ()), DecodeSettled 2 (Resolved 101), Ended 1,
        SpeechSettled 4 (Resolved ()), DecodeSettled 4 (Resolved 102)] sounding0"

text \<open>
  Four chunks; the user skipped to the third chunk while the first two were still being
  fetched, changed the voice and skipped again.  The call for the third chunk under the
  first voice (task 2) is still pending.
\<close>

definition superseded :: app where
  "superseded =
     run sentences
       [SetText ''A.B.C.D.'', PlayPause, Next, Next, ChangeVoice ''Kore'', Next] initial"

text \<open>
  Back in edit mode with a new text, after the call issued for the old text settled.
\<close>

definition stale_cache :: app where
  "stale_cache =
     run sentences
       [SetText ''A.'', PlayPause, ModeChange Edit, SetText ''B.'',
        SpeechSettled 0 (Resolved ()), DecodeSettled 0 (Resolved 100)] initial"

section \<open>Rendering at rest\<close>

lemma round_same: "same_deps prev s \<Longrightarrow> round (prev, s) = (s, s)"
  by (simp add: same_deps_def round_def render_def effects_def)

lemma same_deps_refl: "same_deps s s"
  by (simp add: same_deps_def)

lemma flush_same: "same_deps prev s \<Longrightarrow> flush prev s = s"
  by (simp add: flush_def round_same same_deps_refl)

lemma dropWhile_all: "(\<forall>c\<in>set (dropWhile P t). P c) \<longleftrightarrow> list_all P t"
  by (induction t) auto

lemma trim_Nil_iff: "trim t = [] \<longleftrightarrow> list_all isWhiteSpace t"
  by (simp add: trim_def dropWhile_eq_Nil_conv dropWhile_all)

section \<open>What each function leaves alone\<close>

lemma stopAudio_fields [simp]:
  "text (stopAudio s) = text s"
  "selectedVoice (stopAudio s) = selectedVoice s"
  "isLoading (stopAudio s) = isLoading s"
  "isPlaying (stopAudio s) = isPlaying s"
  "error (stopAudio s) = error s"
  "mode (stopAudio s) = mode s"
  "chunks (stopAudio s) = chunks s"
  "chunksId (stopAudio s) = chunksId s"
  "activeChunkIndex (stopAudio s) = activeChunkIndex s"
  "playChunkEnv (stopAudio s) = playChunkEnv s"
  "audioCacheRef (stopAudio s) = audioCacheRef s"
  "tasks (stopAudio s) = tasks s"
  "sources (stopAudio s) = sources s"
  "synthCalls (stopAudio s) = synthCalls s"
  "cacheClears (stopAudio s) = cacheClears s"
  "fresh (stopAudio s) = fresh s"
  "sourceNodeRef (stopAudio s) = None"
  by (simp_all add: stopAudio_def split: option.split)

lemma same_deps_stopAudio: "same_deps s (stopAudio s)"
  by (simp add: same_deps_def)

lemma getAudioBufferForChunk_fields [simp]:
  "text (snd (getAudioBufferForChunk p cl i s)) = text s"
  "selectedVoice (snd (getAudioBufferForChunk p cl i s)) = selectedVoice s"
  "isLoading (snd (getAudioBufferForChunk p cl i s)) = isLoading s"
  "isPlaying (snd (getAudioBufferForChunk p cl i s)) = isPlaying s"
  "error (snd (getAudioBufferForChunk p cl i s)) = error s"
  "mode (snd (getAudioBufferForChunk p cl i s)) = mode s"
  "chunks (snd (getAudioBufferForChunk p cl i s)) = chunks s"
  "chunksId (snd (getAudioBufferForChunk p cl i s)) = chunksId s"
  "activeChunkIndex (snd (getAudioBufferForChunk p cl i s)) = activeChunkIndex s"
  "playChunkEnv (snd (getAudioBufferForChunk p cl i s)) = playChunkEnv s"
  "audioCacheRef (snd (getAudioBufferForChunk p cl i s)) = audioCacheRef s"
  "sources (snd (getAudioBufferForChunk p cl i s)) = sources s"
  "sounding (snd (getAudioBufferForChunk p cl i s)) = sounding s"
  "sourceNodeRef (snd (getAudioBufferForChunk p cl i s)) = sourceNodeRef s"
  "cacheClears (snd (getAudioBufferForChunk p cl i s)) = cacheClears s"
  by (simp_all add: getAudioBufferForChunk_def split: option.split)

lemma playChunk_resume_fields [simp]:
  "text (playChunk_resume cl i b s) = text s"
  "selectedVoice (playChunk_resume cl i b s) = selectedVoice s"
  "isPlaying (playChunk_resume cl i b s) = isPlaying s"
  "error (playChunk_resume cl i b s) = error s"
  "mode (playChunk_resume cl i b s) = mode s"
  "chunks (playChunk_resume cl i b s) = chunks s"
  "chunksId (playChunk_resume cl i b s) = chunksId s"
  "activeChunkIndex (playChunk_resume cl i b s) = activeChunkIndex s"
  "playChunkEnv (playChunk_resume cl i b s) = playChunkEnv s"
  "audioCacheRef (playChunk_resume cl i b s) = audioCacheRef s"
  "cacheClears (playChunk_resume cl i b s) = cacheClears s"
  "isLoading (playChunk_resume cl i b s) = False"
  "sourceNodeRef (playChunk_resume cl i b s) = Some (fresh s)"
  by (simp_all add: playChunk_resume_def Let_def)

lemma playChunk_fields [simp]:
  "text (playChunk cl i s) = text s"
  "selectedVoice (playChunk cl i s) = selectedVoice s"
  "mode (playChunk cl i s) = mode s"
  "chunks (playChunk cl i s) = chunks s"
  "chunksId (playChunk cl i s) = chunksId s"
  "activeChunkIndex (playChunk cl i s) = activeChunkIndex s"
  "playChunkEnv (playChunk cl i s) = playChunkEnv s"
  "audioCacheRef (playChunk cl i s) = audioCacheRef s"
  "cacheClears (playChunk cl i s) = cacheClears s"
  by (simp_all add: playChunk_def getAudioBufferForChunk_def split: option.split prod.split)

lemma effect_playback_fields [simp]:
  "text (effect_playback r a) = text a"
  "selectedVoice (effect_playback r a) = selectedVoice a"
  "mode (effect_playback r a) = mode a"
  "chunks (effect_playback r a) = chunks a"
  "chunksId (effect_playback r a) = chunksId a"
  "activeChunkIndex (effect_playback r a) = activeChunkIndex a"
  "playChunkEnv (effect_playback r a) = playChunkEnv a"
  "audioCacheRef (effect_playback r a) = audioCacheRef a"
  "cacheClears (effect_playback r a) = cacheClears a"
  by (simp_all add: effect_playback_def)

text \<open>After a handler that only lowered \<open>isPlaying\<close>, the playback effect stops the audio.\<close>

lemma flush_halt:
  assumes "text h = text s" "mode h = mode s" "selectedVoice h = selectedVoice s"
    "activeChunkIndex h = activeChunkIndex s" "chunks h = chunks s" "chunksId h = chunksId s"
    "\<not> isPlaying h"
  shows "flush s h = (if isPlaying s then stopAudio h else h)"
proof -
  have "round (s, h) = (h, if isPlaying s then stopAudio h else h)"
    using assms by (simp add: round_def render_def effects_def effect_playback_def)
  then show ?thesis
    by (simp add: flush_def round_same same_deps_stopAudio same_deps_refl)
qed

text \<open>
  While text, mode and voice stand as in the previous render, only the playback effect
  can run: a round keeps the chunks, the index, the mode and the cache.
\<close>

lemma round_quiet:
  assumes "quiet p c"
  shows "quiet (fst (round (p, c))) (snd (round (p, c)))"
    and "chunks (snd (round (p, c))) = chunks c"
    and "activeChunkIndex (snd (round (p, c))) = activeChunkIndex c"
    and "audioCacheRef (snd (round (p, c))) = audioCacheRef c"
    and "mode (snd (round (p, c))) = mode c"
    and "cacheClears (snd (round (p, c))) = cacheClears c"
  using assms by (simp_all add: quiet_def round_def render_def effects_def Let_def)

lemma rounds_quiet:
  assumes "quiet p c"
  shows "chunks (snd (round (round (p, c)))) = chunks c"
    and "activeChunkIndex (snd (round (round (p, c)))) = activeChunkIndex c"
    and "audioCacheRef (snd (round (round (p, c)))) = audioCacheRef c"
    and "mode (snd (round (round (p, c)))) = mode c"
    and "cacheClears (snd (round (round (p, c)))) = cacheClears c"
proof -
  obtain p1 c1 where r1: "round (p, c) = (p1, c1)"
    by (cases "round (p, c)")
  have q1: "quiet p1 c1" and k1: "chunks c1 = chunks c" "activeChunkIndex c1 = activeChunkIndex c"
    "audioCacheRef c1 = audioCacheRef c" "mode c1 = mode c" "cacheClears c1 = cacheClears c"
    using round_quiet[OF assms] by (simp_all add: r1)
  show "chunks (snd (round (round (p, c)))) = chunks c"
    and "activeChunkIndex (snd (round (round (p, c)))) = activeChunkIndex c"
    and "audioCacheRef (snd (round (round (p, c)))) = audioCacheRef c"
    and "mode (snd (round (round (p, c)))) = mode c"
    and "cacheClears (snd (round (round (p, c)))) = cacheClears c"
    using round_quiet[OF q1] k1 by (simp_all add: r1)
qed

lemma flush_quiet:
  assumes "quiet p c"
  shows "chunks (flush p c) = chunks c"
    and "activeChunkIndex (flush p c) = activeChunkIndex c"
    and "audioCacheRef (flush p c) = audioCacheRef c"
    and "mode (flush p c) = mode c"
    and "cacheClears (flush p c) = cacheClears c"
proof -
  obtain p1 c1 where r1: "round (p, c) = (p1, c1)"
    by (cases "round (p, c)")
  have q1: "quiet p1 c1" and k1: "chunks c1 = chunks c" "activeChunkIndex c1 = activeChunkIndex c"
    "audioCacheRef c1 = audioCacheRef c" "mode c1 = mode c" "cacheClears c1 = cacheClears c"
    using round_quiet[OF assms] by (simp_all add: r1)
  have f: "flush p c = snd (round (round (p1, c1)))"
    by (simp add: flush_def r1)
  show "chunks (flush p c) = chunks c"
    and "activeChunkIndex (flush p c) = activeChunkIndex c"
    and "audioCacheRef (flush p c) = audioCacheRef c"
    and "mode (flush p c) = mode c"
    and "cacheClears (flush p c) = cacheClears c"
    using rounds_quiet[OF q1] k1 by (simp_all add: f)
qed

section \<open>At most one source sounds\<close>

lemma one_source_iff:
  "one_source s \<longleftrightarrow> sounding s = [] \<or> (\<exists>n. sounding s = [n] \<and> sourceNodeRef s = Some n)"
  by (cases "sounding s") (auto simp: one_source_def)

lemma one_source_length: "one_source s \<Longrightarrow> length (sounding s) \<le> 1"
  by (auto simp: one_source_iff)

lemma stopAudio_silent: "one_source s \<Longrightarrow> sounding (stopAudio s) = []"
  by (auto simp: one_source_iff stopAudio_def split: option.split)

lemma one_source_stopAudio: "one_source s \<Longrightarrow> one_source (stopAudio s)"
  by (simp add: one_source_iff stopAudio_silent)

lemma playChunk_resume_sounding:
  "one_source s \<Longrightarrow> sounding (playChunk_resume cl i b s) = [fresh s]"
  by (simp add: playChunk_resume_def Let_def stopAudio_silent)

lemma one_source_playChunk_resume: "one_source s \<Longrightarrow> one_source (playChunk_resume cl i b s)"
  by (simp add: one_source_iff[of "playChunk_resume cl i b s"] playChunk_resume_sounding)

lemma one_source_getAudioBufferForChunk:
  "one_source (snd (getAudioBufferForChunk p cl i s)) = one_source s"
  by (simp add: one_source_def)

lemma one_source_playChunk: "one_source s \<Longrightarrow> one_source (playChunk cl i s)"
proof -
  assume s: "one_source s"
  let ?s0 = "s\<lparr>error := None, isLoading := True\<rparr>"
  have s0: "one_source ?s0" using s by (simp add: one_source_def)
  obtain r s1 where g: "getAudioBufferForChunk ForPlay cl i ?s0 = (r, s1)"
    by (cases "getAudioBufferForChunk ForPlay cl i ?s0")
  have s1: "one_source s1"
    using s0 one_source_getAudioBufferForChunk[of ForPlay cl i ?s0] by (simp add: g)
  have low: "one_source (s\<lparr>isPlaying := False\<rparr>)" using s by (simp add: one_source_def)
  show ?thesis
    using s1 low by (cases r) (simp_all add: playChunk_def g one_source_playChunk_resume)
qed

lemma one_source_effect_playback: "one_source a \<Longrightarrow> one_source (effect_playback r a)"
  by (simp add: effect_playback_def one_source_playChunk one_source_stopAudio)

lemma one_source_effect_selectedVoice: "one_source a \<Longrightarrow> one_source (effect_selectedVoice a)"
  using one_source_stopAudio[of a] by (simp add: effect_selectedVoice_def Let_def one_source_def)

lemma one_source_effect_text_mode: "one_source a \<Longrightarrow> one_source (effect_text_mode r a)"
  by (simp add: effect_text_mode_def one_source_def)

lemma one_source_effects: "one_source r \<Longrightarrow> one_source (effects prev r)"
  by (simp add: effects_def Let_def one_source_effect_playback one_source_effect_selectedVoice
      one_source_effect_text_mode)

lemma one_source_render: "one_source s \<Longrightarrow> one_source (render prev s)"
  by (simp add: render_def one_source_def)

lemma one_source_round: "one_source (snd ps) \<Longrightarrow> one_source (snd (round ps))"
  by (simp add: round_def Let_def one_source_effects one_source_render)

lemma one_source_flush: "one_source s \<Longrightarrow> one_source (flush prev s)"
  by (simp add: flush_def one_source_round)

lemma one_source_playChunk_catch: "one_source s \<Longrightarrow> one_source (playChunk_catch err s)"
  by (simp add: playChunk_catch_def one_source_def split: js_error.split)

lemma one_source_removeTask: "one_source s \<Longrightarrow> one_source (removeTask k s)"
  by (simp add: removeTask_def one_source_def)

lemma one_source_rejected: "one_source s \<Longrightarrow> one_source (rejected k t err s)"
  by (simp add: rejected_def one_source_playChunk_catch one_source_removeTask split: purpose.split)

lemma one_source_speechSettled: "one_source s \<Longrightarrow> one_source (speechSettled k r s)"
  by (simp add: speechSettled_def one_source_rejected one_source_def[of "s\<lparr>tasks := ts\<rparr>" for ts]
      one_source_def[of s, symmetric] split: option.split settled.split)

lemma one_source_decodeSettled: "one_source s \<Longrightarrow> one_source (decodeSettled k r s)"
proof -
  assume s: "one_source s"
  have u: "one_source ((removeTask k s)\<lparr>audioCacheRef := m\<rparr>)" for m
    using s by (simp add: removeTask_def one_source_def)
  show ?thesis
    using s by (simp add: decodeSettled_def Let_def one_source_rejected u
        one_source_playChunk_resume split: option.split settled.split purpose.split)
qed

lemma one_source_onended: "one_source s \<Longrightarrow> one_source (onended src s)"
  by (simp add: onended_def one_source_def)

lemma one_source_ended: "one_source s \<Longrightarrow> one_source (ended n s)"
proof -
  assume s: "one_source s"
  have "one_source (s\<lparr>sources := xs, sounding := removeAll n (sounding s)\<rparr>)" for xs
    using s unfolding one_source_iff[of s] by (cases "n \<in> set (sounding s)") (auto simp: one_source_def)
  then show ?thesis
    using s by (simp add: ended_def one_source_onended split: option.split)
qed

lemma one_source_handle: "one_source s \<Longrightarrow> one_source (handle split e s)"
proof (cases e)
  case PlayPause
  assume "one_source s"
  then show ?thesis
    by (simp add: PlayPause handle_def handlePlayPause_def Let_def one_source_def)
next
  case Next
  assume "one_source s"
  then show ?thesis
    using one_source_stopAudio[of s] by (simp add: Next handle_def handleNext_def one_source_def)
next
  case Prev
  assume "one_source s"
  then show ?thesis
    using one_source_stopAudio[of s] by (simp add: Prev handle_def handlePrev_def one_source_def)
next
  case (ModeChange m)
  assume s: "one_source s"
  then have x: "one_source (s\<lparr>mode := m, isPlaying := False\<rparr>)"
    and y: "one_source (s\<lparr>mode := m\<rparr>)"
    by (simp_all add: one_source_def)
  show ?thesis
    using one_source_stopAudio[OF x] y by (auto simp: ModeChange handle_def handleModeChange_def)
qed (simp_all add: handle_def one_source_def one_source_speechSettled[unfolded one_source_def]
      one_source_decodeSettled[unfolded one_source_def] one_source_ended[unfolded one_source_def])

lemma one_source_step: "one_source s \<Longrightarrow> one_source (step split e s)"
  by (simp add: step_def one_source_flush one_source_handle)

lemma one_source_run: "one_source s \<Longrightarrow> one_source (run split es s)"
  by (induction es arbitrary: s) (simp_all add: one_source_step)

lemma one_source_initial: "one_source initial"
  by (simp add: one_source_def initial_def)


section \<open>Skipping forward and backward\<close>

lemma step_Next:
  "chunks (step split Next s) = chunks s"
  "activeChunkIndex (step split Next s) =
     (if activeChunkIndex s < int (length (chunks s)) - 1 then activeChunkIndex s + 1
      else activeChunkIndex s)"
  by (simp_all add: step_def handle_def flush_quiet quiet_def handleNext_def)

lemma step_Prev:
  "chunks (step split Prev s) = chunks s"
  "activeChunkIndex (step split Prev s) =
     (if activeChunkIndex s > 0 then activeChunkIndex s - 1 else activeChunkIndex s)"
  by (simp_all add: step_def handle_def flush_quiet quiet_def handlePrev_def)

lemma run_Next_Prev:
  "set es \<subseteq> {Next, Prev} \<Longrightarrow> 0 \<le> activeChunkIndex s \<Longrightarrow>
   activeChunkIndex s < int (length (chunks s)) \<Longrightarrow>
   chunks (run split es s) = chunks s \<and> 0 \<le> activeChunkIndex (run split es s) \<and>
   activeChunkIndex (run split es s) < int (length (chunks s))"
proof (induction es arbitrary: s)
  case Nil
  then show ?case by simp
next
  case (Cons e es)
  from Cons.prems(1) have e: "e = Next \<or> e = Prev" and es: "set es \<subseteq> {Next, Prev}"
    by auto
  let ?s = "step split e s"
  have "chunks ?s = chunks s \<and> 0 \<le> activeChunkIndex ?s \<and>
        activeChunkIndex ?s < int (length (chunks s))"
    using e Cons.prems(2,3) by (auto simp: step_Next step_Prev)
  with Cons.IH[OF es, of ?s] show ?case by simp
qed

section \<open>Concrete states\<close>

lemma loading0_tasks:
  "tasks loading0 =
     [(0, \<lparr>purpose = ForPlay, index = 0,
           env = \<lparr>cl_chunks = [''A.'', ''B.'', ''C.''], cl_selectedVoice = ''Puck'',
                  cl_activeChunkIndex = 0, cl_isPlaying = True\<rparr>,
           stage = AwaitSpeech\<rparr>)]"
  by code_simp

lemma loading0_fields:
  "chunks loading0 = [''A.'', ''B.'', ''C.'']" "activeChunkIndex loading0 = 0"
  "isPlaying loading0" "isLoading loading0" "mode loading0 = Read" "error loading0 = None"
  "synthCalls loading0 = [(Some ''A.'', ''Puck'')]" "sounding loading0 = []"
  by code_simp+

lemma decoding0_tasks:
  "tasks decoding0 =
     [(0, \<lparr>purpose = ForPlay, index = 0,
           env = \<lparr>cl_chunks = [''A.'', ''B.'', ''C.''], cl_selectedVoice = ''Puck'',
                  cl_activeChunkIndex = 0, cl_isPlaying = True\<rparr>,
           stage = AwaitDecode\<rparr>)]"
  by code_simp

lemma decoded0_fields:
  "playChunkEnv decoded0 =
     \<lparr>cl_chunks = [''A.'', ''B.'', ''C.''], cl_selectedVoice = ''Puck'',
      cl_activeChunkIndex = 0, cl_isPlaying = True\<rparr>"
  "tasks decoded0 = []" "fresh decoded0 = 1" "synthCalls decoded0 = [(Some ''A.'', ''Puck'')]"
  "audioCacheRef decoded0 ''Puck-1'' = None"
  "cacheKey \<lparr>cl_chunks = [''A.'', ''B.'', ''C.''], cl_selectedVoice = ''Puck'',
      cl_activeChunkIndex = 0, cl_isPlaying = True\<rparr> 1 = ''Puck-1''"
  by code_simp+

lemma sounding0_tasks:
  "tasks sounding0 =
     [(2, \<lparr>purpose = ForPrefetch, index = 1,
           env = \<lparr>cl_chunks = [''A.'', ''B.'', ''C.''], cl_selectedVoice = ''Puck'',
                  cl_activeChunkIndex = 0, cl_isPlaying = True\<rparr>,
           stage = AwaitSpeech\<rparr>)]"
  by code_simp

lemma sounding0_fields:
  "chunks sounding0 = [''A.'', ''B.'', ''C.'']" "activeChunkIndex sounding0 = 0"
  "isPlaying sounding0" "\<not> isLoading sounding0" "mode sounding0 = Read"
  "error sounding0 = None" "sounding sounding0 = [1]" "sourceNodeRef sounding0 = Some 1"
  "synthCalls sounding0 = [(Some ''A.'', ''Puck''), (Some ''B.'', ''Puck'')]"
  "audioCacheRef sounding0 ''Puck-0'' = Some 100" "audioCacheRef sounding0 ''Puck-1'' = None"
  by code_simp+

section \<open>Effects after a change of text, mode or voice\<close>

lemma effects_fields [simp]:
  "text (effects p r) = text r"
  "mode (effects p r) = mode r"
  "selectedVoice (effects p r) = selectedVoice r"
  "activeChunkIndex (effects p r) = activeChunkIndex r"
  by (simp_all add: effects_def effect_text_mode_def effect_selectedVoice_def Let_def)

lemma render_fields [simp]:
  "text (render p s) = text s"
  "mode (render p s) = mode s"
  "selectedVoice (render p s) = selectedVoice s"
  "activeChunkIndex (render p s) = activeChunkIndex s"
  "chunks (render p s) = chunks s"
  "audioCacheRef (render p s) = audioCacheRef s"
  "cacheClears (render p s) = cacheClears s"
  "isPlaying (render p s) = isPlaying s"
  "isLoading (render p s) = isLoading s"
  "error (render p s) = error s"
  "chunksId (render p s) = chunksId s"
  "tasks (render p s) = tasks s"
  "synthCalls (render p s) = synthCalls s"
  "sources (render p s) = sources s"
  "sounding (render p s) = sounding s"
  "sourceNodeRef (render p s) = sourceNodeRef s"
  "fresh (render p s) = fresh s"
  by (simp_all add: render_def)

lemma round_quiet_always: "quiet (fst (round ps)) (snd (round ps))"
  by (simp add: round_def Let_def quiet_def)

text \<open>What the first round leaves in these fields is what the flush leaves.\<close>

lemma flush_first_round:
  "chunks (flush p c) = chunks (snd (round (p, c)))"
  "activeChunkIndex (flush p c) = activeChunkIndex (snd (round (p, c)))"
  "audioCacheRef (flush p c) = audioCacheRef (snd (round (p, c)))"
  "mode (flush p c) = mode (snd (round (p, c)))"
  "cacheClears (flush p c) = cacheClears (snd (round (p, c)))"
  using rounds_quiet[OF round_quiet_always[of "(p, c)"]]
  by (simp_all add: flush_def)

lemma rounds_halt:
  assumes "text h = text p" "mode h = mode p" "selectedVoice h = selectedVoice p"
    "activeChunkIndex h = activeChunkIndex p" "length (chunks h) = length (chunks p)"
    "chunksId h = chunksId p" "\<not> isPlaying h"
  shows "snd (round (round (p, h))) = (if isPlaying p then stopAudio h else h)"
proof -
  have "round (p, h) = (h, if isPlaying p then stopAudio h else h)"
    using assms by (simp add: round_def render_def effects_def effect_playback_def)
  then show ?thesis
    by (simp add: round_same same_deps_stopAudio same_deps_refl)
qed

lemma step_ChangeVoice:
  assumes "v \<noteq> selectedVoice s"
  shows "audioCacheRef (step split (ChangeVoice v) s) = Map.empty"
    and "synthCalls (step split (ChangeVoice v) s) = synthCalls s"
    and "tasks (step split (ChangeVoice v) s) = tasks s"
    and "\<not> isPlaying (step split (ChangeVoice v) s)"
proof -
  let ?h = "s\<lparr>selectedVoice := v\<rparr>"
  let ?r = "render s ?h"
  let ?a = "effect_selectedVoice ?r"
  have r1: "round (s, ?h) = (?r, ?a)"
    using assms by (simp add: round_def effects_def Let_def)
  have "snd (round (round (?r, ?a))) = (if isPlaying ?r then stopAudio ?a else ?a)"
    by (rule rounds_halt) (simp_all add: effect_selectedVoice_def Let_def)
  then have f: "step split (ChangeVoice v) s = (if isPlaying ?r then stopAudio ?a else ?a)"
    by (simp add: step_def handle_def flush_def r1)
  show "audioCacheRef (step split (ChangeVoice v) s) = Map.empty"
    and "synthCalls (step split (ChangeVoice v) s) = synthCalls s"
    and "tasks (step split (ChangeVoice v) s) = tasks s"
    and "\<not> isPlaying (step split (ChangeVoice v) s)"
    by (simp_all add: f effect_selectedVoice_def Let_def render_def)
qed

lemma step_SetText:
  assumes "mode s = Edit" "t \<noteq> text s"
  shows "audioCacheRef (step split (SetText t) s) = Map.empty"
  using assms
  by (simp add: step_def handle_def flush_first_round round_def render_def effects_def
      effect_text_mode_def Let_def)

lemma step_ModeChange_Edit:
  assumes "mode s = Read"
  shows "audioCacheRef (step split (ModeChange Edit) s) = Map.empty"
  using assms
  by (simp add: step_def handle_def handleModeChange_def flush_first_round round_def
      render_def effects_def effect_text_mode_def Let_def)

lemma step_startReading:
  assumes "mode s = Edit" "\<not> list_all isWhiteSpace (text s)" "split (text s) \<noteq> []"
  shows "mode (step split PlayPause s) = Read"
    and "activeChunkIndex (step split PlayPause s) = 0"
    and "chunks (step split PlayPause s) = split (text s)"
    and "audioCacheRef (step split PlayPause s) = audioCacheRef s"
    and "cacheClears (step split PlayPause s) = cacheClears s"
  using assms
  by (simp_all add: step_def handle_def handlePlayPause_def trim_Nil_iff flush_first_round
      round_def render_def effects_def effect_text_mode_def Let_def)

section \<open>Three rounds reach the state at rest\<close>

lemma playChunk_isPlaying:
  "isPlaying (playChunk cl i s) = isPlaying s \<or> \<not> isPlaying (playChunk cl i s)"
  by (simp add: playChunk_def getAudioBufferForChunk_def split: option.split)

lemma effect_playback_isPlaying:
  "isPlaying (effect_playback r a) = isPlaying a \<or> \<not> isPlaying (effect_playback r a)"
  using playChunk_isPlaying by (simp add: effect_playback_def)

lemma settling_refl: "settling r r"
  by (simp add: settling_def)

lemma settling_effect_text_mode: "settling r a \<Longrightarrow> settling r (effect_text_mode r' a)"
  by (simp add: settling_def effect_text_mode_def)

lemma settling_effect_selectedVoice: "settling r a \<Longrightarrow> settling r (effect_selectedVoice a)"
  by (simp add: settling_def effect_selectedVoice_def Let_def)

lemma settling_effect_playback: "settling r a \<Longrightarrow> settling r (effect_playback r' a)"
  using effect_playback_isPlaying[of r' a] by (auto simp: settling_def)

lemma settling_effects: "settling r (effects p r)"
  by (simp add: effects_def Let_def settling_refl settling_effect_text_mode
      settling_effect_selectedVoice settling_effect_playback)

lemma round_settling: "settling (fst (round ps)) (snd (round ps))"
  by (simp add: round_def Let_def settling_effects)

lemma round_settled:
  assumes "settling r a"
  shows "same_deps (fst (round (r, a))) (snd (round (r, a)))"
proof -
  let ?r = "render r a"
  have stop: "effect_playback ?r ?r = stopAudio ?r"
    if "isPlaying a \<noteq> isPlaying r \<or> length (chunks a) \<noteq> length (chunks r)"
    using that assms by (auto simp: settling_def effect_playback_def)
  have "effects r ?r = ?r \<or> effects r ?r = stopAudio ?r"
    using assms stop by (auto simp: effects_def Let_def settling_def)
  then show ?thesis
    by (auto simp: round_def Let_def same_deps_refl same_deps_stopAudio)
qed

lemma flush_stable: "round (round (round (p, c))) = (flush p c, flush p c)"
proof -
  obtain r1 a1 where 1: "round (p, c) = (r1, a1)" by (cases "round (p, c)")
  obtain r2 a2 where 2: "round (r1, a1) = (r2, a2)" by (cases "round (r1, a1)")
  have "settling r1 a1" using round_settling[of "(p, c)"] by (simp add: 1)
  then have "same_deps r2 a2" using round_settled[of r1 a1] by (simp add: 2)
  then have "round (r2, a2) = (a2, a2)" by (rule round_same)
  then show ?thesis by (simp add: flush_def 1 2)
qed

lemma flush_at_rest: "round (flush p c, flush p c) = (flush p c, flush p c)"
  by (simp add: round_same same_deps_refl)

section \<open>Writes to the cache\<close>

lemma round_cache:
  "(audioCacheRef (snd (round (p, c))) = audioCacheRef c \<and>
    cacheClears (snd (round (p, c))) = cacheClears c) \<or>
   cacheClears c < cacheClears (snd (round (p, c)))"
  by (simp add: round_def effects_def effect_text_mode_def effect_selectedVoice_def Let_def)

lemma flush_cache:
  "(audioCacheRef (flush p c) = audioCacheRef c \<and> cacheClears (flush p c) = cacheClears c) \<or>
   cacheClears c < cacheClears (flush p c)"
  using round_cache[of p c] by (simp add: flush_first_round)

lemma playChunk_catch_fields [simp]:
  "audioCacheRef (playChunk_catch err s) = audioCacheRef s"
  "cacheClears (playChunk_catch err s) = cacheClears s"
  by (simp_all add: playChunk_catch_def split: js_error.split)

lemma removeTask_fields [simp]:
  "audioCacheRef (removeTask k s) = audioCacheRef s"
  "cacheClears (removeTask k s) = cacheClears s"
  by (simp_all add: removeTask_def)

lemma handle_cacheClears: "cacheClears (handle split e s) = cacheClears s"
  by (cases e)
    (simp_all add: handle_def handlePlayPause_def handleNext_def handlePrev_def
      handleModeChange_def speechSettled_def decodeSettled_def rejected_def ended_def
      onended_def Let_def split: option.split settled.split purpose.split)

lemma handle_cache:
  "audioCacheRef (handle split e s) = audioCacheRef s \<or>
   (\<exists>k t c. e = DecodeSettled k (Resolved c) \<and> map_of (tasks s) k = Some t \<and>
      audioCacheRef (handle split e s) = (audioCacheRef s)(cacheKey (env t) (index t) \<mapsto> c))"
  by (cases e)
    (simp_all add: handle_def handlePlayPause_def handleNext_def handlePrev_def
      handleModeChange_def speechSettled_def decodeSettled_def rejected_def ended_def
      onended_def Let_def split: option.split settled.split purpose.split)

lemma step_cache_entry:
  assumes "audioCacheRef s key = Some b"
  shows "audioCacheRef (step split e s) key = Some b \<or>
         cacheClears s < cacheClears (step split e s) \<or>
         (\<exists>k t c. e = DecodeSettled k (Resolved c) \<and> map_of (tasks s) k = Some t \<and>
            cacheKey (env t) (index t) = key)"
proof -
  let ?h = "handle split e s"
  consider (kept) "audioCacheRef (step split e s) = audioCacheRef ?h"
    | (cleared) "cacheClears s < cacheClears (step split e s)"
    using flush_cache[of s ?h] by (auto simp: step_def handle_cacheClears)
  then show ?thesis
  proof cases
    case kept
    from handle_cache[of split e s] show ?thesis
    proof
      assume "audioCacheRef ?h = audioCacheRef s"
      with kept assms show ?thesis by simp
    next
      assume "\<exists>k t c. e = DecodeSettled k (Resolved c) \<and> map_of (tasks s) k = Some t \<and>
        audioCacheRef ?h = (audioCacheRef s)(cacheKey (env t) (index t) \<mapsto> c)"
      then obtain k t c where e: "e = DecodeSettled k (Resolved c)"
        and t: "map_of (tasks s) k = Some t"
        and u: "audioCacheRef ?h = (audioCacheRef s)(cacheKey (env t) (index t) \<mapsto> c)"
        by blast
      show ?thesis
      proof (cases "cacheKey (env t) (index t) = key")
        case True
        with e t show ?thesis by blast
      next
        case False
        with kept u assms show ?thesis by simp
      qed
    qed
  next
    case cleared
    then show ?thesis by simp
  qed
qed

lemma step_decode_writes:
  assumes "map_of (tasks s) k = Some t" "stage t = AwaitDecode"
  shows "audioCacheRef (step split (DecodeSettled k (Resolved b)) s) (cacheKey (env t) (index t))
           = Some b"
proof -
  let ?h = "handle split (DecodeSettled k (Resolved b)) s"
  have "quiet s ?h"
    using assms
    by (simp add: quiet_def handle_def decodeSettled_def Let_def removeTask_def
        split: purpose.split)
  then have "audioCacheRef (step split (DecodeSettled k (Resolved b)) s) = audioCacheRef ?h"
    by (simp add: step_def flush_quiet)
  then show ?thesis
    using assms by (simp add: handle_def decodeSettled_def Let_def split: purpose.split)
qed

lemma sounding0_more:
  "selectedVoice sounding0 = ''Puck''" "cacheClears sounding0 = 1"
  "cacheClears (step sentences Next sounding0) = 1"
  "cacheKey (playChunkEnv sounding0) 0 = ''Puck-0''"
  by code_simp+

section \<open>The cache in edit mode\<close>

lemma round_cache_cases:
  "audioCacheRef (snd (round (p, c))) = audioCacheRef c \<or>
   audioCacheRef (snd (round (p, c))) = Map.empty"
  by (simp add: round_def effects_def effect_text_mode_def effect_selectedVoice_def Let_def)

lemma flush_cache_cases:
  "audioCacheRef (flush p c) = audioCacheRef c \<or> audioCacheRef (flush p c) = Map.empty"
  using round_cache_cases[of p c] by (simp add: flush_first_round)

lemma step_mode: "mode (step split e s) = mode (handle split e s)"
  by (simp add: step_def flush_first_round round_def Let_def)

lemma handle_mode:
  "mode (handle split e s) = mode s \<or> e = ModeChange (mode (handle split e s)) \<or>
   mode (handle split e s) = Read"
  by (cases e)
    (simp_all add: handle_def handlePlayPause_def handleNext_def handlePrev_def
      handleModeChange_def speechSettled_def decodeSettled_def rejected_def ended_def
      onended_def playChunk_catch_def removeTask_def Let_def
      split: option.split settled.split purpose.split js_error.split)

lemma edit_clean_step:
  assumes "edit_clean s" and "\<not> late_write s e"
  shows "edit_clean (step split e s)"
proof (cases "mode (handle split e s) = Edit")
  case False
  then show ?thesis
    by (simp add: edit_clean_def step_mode)
next
  case True
  show ?thesis
  proof (cases "mode s")
    case Edit
    with assms(1) have empty: "audioCacheRef s = Map.empty"
      by (simp add: edit_clean_def)
    have "audioCacheRef (handle split e s) = audioCacheRef s"
      using handle_cache[of split e s] assms(2) Edit by auto
    with empty flush_cache_cases[of s "handle split e s"] show ?thesis
      by (auto simp: edit_clean_def step_def)
  next
    case Read
    with True handle_mode[of split e s] have "e = ModeChange Edit"
      by auto
    with Read step_ModeChange_Edit[of s split] show ?thesis
      by (simp add: edit_clean_def)
  qed
qed

lemma edit_clean_run:
  "edit_clean s \<Longrightarrow> no_late_write split es s \<Longrightarrow> edit_clean (run split es s)"
  by (induction es arbitrary: s) (simp_all add: edit_clean_step)

lemma edit_clean_initial: "edit_clean initial"
  by (simp add: edit_clean_def initial_def)

text \<open>
  On a run without a late write, entering read mode starts from an empty cache and at
  index 0.
\<close>

lemma startReading_clean:
  assumes "no_late_write split es initial" and "s = run split es initial"
    and "mode s = Edit" and "\<not> list_all isWhiteSpace (text s)" and "split (text s) \<noteq> []"
  shows "audioCacheRef (step split PlayPause s) = Map.empty"
    and "activeChunkIndex (step split PlayPause s) = 0"
    and "mode (step split PlayPause s) = Read"
proof -
  have "edit_clean s"
    using assms(1,2) edit_clean_run[OF edit_clean_initial] by simp
  with assms(3) have "audioCacheRef s = Map.empty"
    by (simp add: edit_clean_def)
  with step_startReading[of s split] assms(3,4,5)
  show "audioCacheRef (step split PlayPause s) = Map.empty"
    and "activeChunkIndex (step split PlayPause s) = 0"
    and "mode (step split PlayPause s) = Read"
    by simp_all
qed

section \<open>A rejection with \<^verbatim>\<open>null\<close> or \<^verbatim>\<open>undefined\<close>\<close>

text \<open>
  The \<^verbatim>\<open>catch\<close> block itself throws: the step only forgets the pending call, and message,
  loading flag and playing flag stay as they were.
\<close>

lemma nullish_rejection:
  assumes "map_of (tasks s) k = Some t" and "purpose t = ForPlay"
    and "(stage t = AwaitSpeech \<and> e = SpeechSettled k (Rejected Nullish)) \<or>
         (stage t = AwaitDecode \<and> e = DecodeSettled k (Rejected Nullish))"
  shows "step split e s = removeTask k s"
proof -
  have "handle split e s = removeTask k s"
    using assms
    by (auto simp: handle_def speechSettled_def decodeSettled_def rejected_def
        playChunk_catch_def)
  then show ?thesis
    by (simp add: step_def flush_same same_deps_def removeTask_def)
qed

lemma nullish_rejection_loading0:
  "error (step sentences (SpeechSettled 0 (Rejected Nullish)) loading0) = None \<and>
   isLoading (step sentences (SpeechSettled 0 (Rejected Nullish)) loading0) \<and>
   isPlaying (step sentences (SpeechSettled 0 (Rejected Nullish)) loading0)"
  by code_simp

section \<open>The claims\<close>

text \<open>
  Claim C10.  Play/pause while the text is empty or consists of white space only sets
  the message \<^verbatim>\<open>"Please enter text to read."\<close> and changes nothing else: the state after
  the event is the state before it with \<open>error\<close> replaced, so mode, chunks, index,
  playing flag, cache, pending calls and sources are all as they were, and read mode is
  not entered.
\<close>

theorem C10_blank_text:
  "list_all isWhiteSpace (text s) \<Longrightarrow>
   step split PlayPause s = s\<lparr>error := Some ''Please enter text to read.''\<rparr>"
  by (simp add: step_def handle_def handlePlayPause_def trim_Nil_iff flush_same same_deps_def)

theorem C10_blank_text_witness:
  "list_all isWhiteSpace (text (initial\<lparr>text := [CHR '' '', CHR 0x0A]\<rparr>)) \<and>
   step sentences PlayPause (initial\<lparr>text := [CHR '' '', CHR 0x0A]\<rparr>) =
     initial\<lparr>text := [CHR '' '', CHR 0x0A], error := Some ''Please enter text to read.''\<rparr>"
  using C10_blank_text [of "initial\<lparr>text := [CHR '' '', CHR 0x0A]\<rparr>" sentences]
  by (simp add: isWhiteSpace_def)

text \<open>
  Claim C9, as stated, fails: with a text that is not blank and a splitter that returns
  no chunk, play/pause in edit mode shows no message.  \<open>error\<close> is \<open>None\<close> before and
  after.
\<close>

theorem C9_no_message_counterexample:
  "\<not> list_all isWhiteSpace (text (run noChunks [SetText ''x''] initial)) \<and>
   noChunks (text (run noChunks [SetText ''x''] initial)) = [] \<and>
   error (run noChunks [SetText ''x''] initial) = None \<and>
   error (run noChunks [SetText ''x'', PlayPause] initial) = None"
  by code_simp

text \<open>
  Claim C9, amended.  Play/pause in edit mode on a text that is not blank and that the
  splitter turns into zero chunks is a silent no-op: the whole state is left as it was
  (mode stays \<open>Edit\<close>; chunks, index, playing flag and also the message are unchanged), and
  every step of the model returns a state, so nothing crashes.
\<close>

theorem C9_silent_noop:
  "\<not> list_all isWhiteSpace (text s) \<Longrightarrow> mode s = Edit \<Longrightarrow> split (text s) = [] \<Longrightarrow>
   step split PlayPause s = s"
  by (simp add: step_def handle_def handlePlayPause_def trim_Nil_iff flush_same same_deps_def)

theorem C9_silent_noop_witness:
  "\<not> list_all isWhiteSpace (text (initial\<lparr>text := ''x''\<rparr>)) \<and>
   mode (initial\<lparr>text := ''x''\<rparr>) = Edit \<and> noChunks (text (initial\<lparr>text := ''x''\<rparr>)) = [] \<and>
   step noChunks PlayPause (initial\<lparr>text := ''x''\<rparr>) = initial\<lparr>text := ''x''\<rparr>"
  using C9_silent_noop [of "initial\<lparr>text := ''x''\<rparr>" noChunks]
  by (simp add: isWhiteSpace_def noChunks_def initial_def)

text \<open>
  Claim C7.  When the resolution awaited by \<^verbatim>\<open>playChunk\<close> fails with an error, at the
  synthesis call or at decoding, the step ends with the message set, \<open>isLoading\<close> and
  \<open>isPlaying\<close> false, and without a retry: no call of \<^verbatim>\<open>generateSpeech\<close> is added and
  the pending calls are the earlier ones without the failed one.  An error is a rejection
  value other than \<^verbatim>\<open>null\<close> and \<^verbatim>\<open>undefined\<close> (\<open>Thrown m\<close>); what the collaborators
  reject with is not in the sources at hand, and \<open>nullish_rejection\<close> above shows what a
  \<open>Nullish\<close> value does.  The resolution of the active chunk is such a task (its \<open>index\<close>
  is \<open>activeChunkIndex\<close>); the theorem holds for every task of \<^verbatim>\<open>playChunk\<close>.
\<close>

theorem C7_fetch_error:
  assumes "map_of (tasks s) k = Some t" and "purpose t = ForPlay"
    and "(stage t = AwaitSpeech \<and> e = SpeechSettled k (Rejected (Thrown m))) \<or>
         (stage t = AwaitDecode \<and> e = DecodeSettled k (Rejected (Thrown m)))"
  shows "error (step split e s) =
           Some (''Failed to load audio. '' @ (case m of None \<Rightarrow> [] | Some x \<Rightarrow> x)) \<and>
         isLoading (step split e s) = False \<and> isPlaying (step split e s) = False \<and>
         synthCalls (step split e s) = synthCalls s \<and>
         tasks (step split e s) = filter (\<lambda>x. fst x \<noteq> k) (tasks s)"
proof -
  let ?h = "playChunk_catch (Thrown m) (removeTask k s)"
  have h: "handle split e s = ?h"
    using assms by (auto simp: handle_def speechSettled_def decodeSettled_def rejected_def)
  have "flush s ?h = (if isPlaying s then stopAudio ?h else ?h)"
    by (rule flush_halt) (simp_all add: playChunk_catch_def removeTask_def)
  then show ?thesis
    by (simp add: step_def h playChunk_catch_def removeTask_def)
qed

theorem C7_fetch_error_witness:
  "error (step sentences (SpeechSettled 0 (Rejected (Thrown (Some ''quota'')))) loading0) =
     Some ''Failed to load audio. quota'' \<and>
   isLoading (step sentences (SpeechSettled 0 (Rejected (Thrown (Some ''quota'')))) loading0)
     = False \<and>
   isPlaying (step sentences (SpeechSettled 0 (Rejected (Thrown (Some ''quota'')))) loading0)
     = False \<and>
   synthCalls (step sentences (SpeechSettled 0 (Rejected (Thrown (Some ''quota'')))) loading0) =
     [(Some ''A.'', ''Puck'')] \<and>
   tasks (step sentences (SpeechSettled 0 (Rejected (Thrown (Some ''quota'')))) loading0) = [] \<and>
   error (step sentences (DecodeSettled 0 (Rejected (Thrown None))) decoding0) =
     Some ''Failed to load audio. '' \<and>
   isPlaying (step sentences (DecodeSettled 0 (Rejected (Thrown None))) decoding0) = False"
  using C7_fetch_error [of loading0 0 _ "SpeechSettled 0 (Rejected (Thrown (Some ''quota'')))"
      "Some ''quota''" sentences]
    C7_fetch_error [of decoding0 0 _ "DecodeSettled 0 (Rejected (Thrown None))" None sentences]
  by (simp add: loading0_tasks loading0_fields decoding0_tasks)

text \<open>
  Claim C4.  From a state whose index lies in \<open>[0, N - 1]\<close>, \<open>N\<close> the number of chunks,
  every sequence of next and previous commands leaves the index in \<open>[0, N - 1]\<close>; next
  at index \<open>N - 1\<close> and previous at index \<open>0\<close> leave the whole state as it was.
\<close>

theorem C4_index_bounds:
  assumes "set es \<subseteq> {Next, Prev}" and "0 \<le> activeChunkIndex s"
    and "activeChunkIndex s < int (length (chunks s))"
  shows "0 \<le> activeChunkIndex (run split es s) \<and>
         activeChunkIndex (run split es s) < int (length (chunks (run split es s))) \<and>
         (activeChunkIndex s = int (length (chunks s)) - 1 \<longrightarrow> step split Next s = s) \<and>
         (activeChunkIndex s = 0 \<longrightarrow> step split Prev s = s)"
  using run_Next_Prev[OF assms]
  by (simp add: step_def handle_def handleNext_def handlePrev_def flush_same same_deps_refl)

theorem C4_index_bounds_witness:
  "0 \<le> activeChunkIndex (run sentences [Next, Next, Next, Prev] loading0) \<and>
   activeChunkIndex (run sentences [Next, Next, Next, Prev] loading0)
     < int (length (chunks (run sentences [Next, Next, Next, Prev] loading0))) \<and>
   step sentences Prev loading0 = loading0"
  using C4_index_bounds [of "[Next, Next, Next, Prev]" loading0 sentences]
  by (simp add: loading0_fields)

text \<open>
  Claim C3.  After every sequence of events (commands, settled calls and \<^verbatim>\<open>ended\<close>
  notifications) from the mounted component at most one source sounds, and starting a
  buffer in any such state leaves exactly the new source sounding: whatever sounded
  before has been stopped.
\<close>

theorem C3_one_source:
  "length (sounding (run split es initial)) \<le> 1 \<and>
   sounding (playChunk_resume cl i b (run split es initial)) = [fresh (run split es initial)]"
proof -
  have "one_source (run split es initial)"
    by (rule one_source_run[OF one_source_initial])
  then show ?thesis
    using one_source_length playChunk_resume_sounding by blast
qed

theorem C3_one_source_witness:
  "length (sounding (run sentences [Next, Prev] sounding0)) \<le> 1 \<and>
   sounding (playChunk_resume (playChunkEnv sounding0) 1 101 sounding0) = [fresh sounding0]"
  using C3_one_source [of sentences
      "[SetText ''A.B.C.'', PlayPause, SpeechSettled 0 (Resolved ()),
        DecodeSettled 0 (Resolved 100), Next, Prev]" _ 1 101]
    C3_one_source [of sentences
      "[SetText ''A.B.C.'', PlayPause, SpeechSettled 0 (Resolved ()),
        DecodeSettled 0 (Resolved 100)]" "playChunkEnv sounding0" 1 101]
  by (simp add: sounding0_def loading0_def)

text \<open>
  Claim C8.  Whenever \<^verbatim>\<open>playChunk\<close> starts chunk \<open>i\<close>, in any state, and \<open>i + 1\<close> is
  below the number of chunks, it asks for the buffer of \<open>i + 1\<close> under its voice: unless
  the cache already has that entry, exactly one \<open>ForPrefetch\<close> task and one call of
  \<^verbatim>\<open>generateSpeech\<close> for chunk \<open>i + 1\<close> are added; otherwise none is.  Whatever then
  happens to a \<open>ForPrefetch\<close> task changes nothing but the pending calls and, when
  decoding succeeds, the cache entry of its key: a failure only removes the task, so
  message, playing flag, index, mode and loading flag stay as they are.
\<close>

theorem C8_prefetch_isolated:
  "tasks (playChunk_resume cl i b s) =
     (if i + 1 < int (length (cl_chunks cl)) \<and> audioCacheRef s (cacheKey cl (i + 1)) = None
      then tasks s @ [(Suc (fresh s),
             \<lparr>purpose = ForPrefetch, index = i + 1, env = cl, stage = AwaitSpeech\<rparr>)]
      else tasks s) \<and>
   synthCalls (playChunk_resume cl i b s) =
     (if i + 1 < int (length (cl_chunks cl)) \<and> audioCacheRef s (cacheKey cl (i + 1)) = None
      then synthCalls s @ [(chunkAt (cl_chunks cl) (i + 1), cl_selectedVoice cl)]
      else synthCalls s) \<and>
   (map_of (tasks s) k = Some t \<and> purpose t = ForPrefetch \<longrightarrow>
      step split (SpeechSettled k (Rejected err)) s =
        (if stage t = AwaitSpeech then removeTask k s else s) \<and>
      step split (SpeechSettled k (Resolved u)) s =
        (if stage t = AwaitSpeech
         then s\<lparr>tasks := map (\<lambda>e. if fst e = k then (k, t\<lparr>stage := AwaitDecode\<rparr>) else e)
                             (tasks s)\<rparr>
         else s) \<and>
      step split (DecodeSettled k (Rejected err)) s =
        (if stage t = AwaitDecode then removeTask k s else s) \<and>
      step split (DecodeSettled k (Resolved c)) s =
        (if stage t = AwaitDecode
         then (removeTask k s)
                \<lparr>audioCacheRef := (audioCacheRef s)(cacheKey (env t) (index t) \<mapsto> c)\<rparr>
         else s))"
proof -
  have issue: "tasks (playChunk_resume cl i b s) =
     (if i + 1 < int (length (cl_chunks cl)) \<and> audioCacheRef s (cacheKey cl (i + 1)) = None
      then tasks s @ [(Suc (fresh s),
             \<lparr>purpose = ForPrefetch, index = i + 1, env = cl, stage = AwaitSpeech\<rparr>)]
      else tasks s)"
    and call: "synthCalls (playChunk_resume cl i b s) =
     (if i + 1 < int (length (cl_chunks cl)) \<and> audioCacheRef s (cacheKey cl (i + 1)) = None
      then synthCalls s @ [(chunkAt (cl_chunks cl) (i + 1), cl_selectedVoice cl)]
      else synthCalls s)"
    by (auto simp: playChunk_resume_def Let_def getAudioBufferForChunk_def)
  have isolated: "step split (SpeechSettled k (Rejected err)) s =
        (if stage t = AwaitSpeech then removeTask k s else s) \<and>
      step split (SpeechSettled k (Resolved u)) s =
        (if stage t = AwaitSpeech
         then s\<lparr>tasks := map (\<lambda>e. if fst e = k then (k, t\<lparr>stage := AwaitDecode\<rparr>) else e)
                             (tasks s)\<rparr>
         else s) \<and>
      step split (DecodeSettled k (Rejected err)) s =
        (if stage t = AwaitDecode then removeTask k s else s) \<and>
      step split (DecodeSettled k (Resolved c)) s =
        (if stage t = AwaitDecode
         then (removeTask k s)
                \<lparr>audioCacheRef := (audioCacheRef s)(cacheKey (env t) (index t) \<mapsto> c)\<rparr>
         else s)"
    if "map_of (tasks s) k = Some t" and "purpose t = ForPrefetch"
    using that
    by (simp add: step_def handle_def speechSettled_def decodeSettled_def rejected_def
        removeTask_def flush_same same_deps_def)
  from issue call isolated show ?thesis
    by blast
qed

theorem C8_prefetch_isolated_witness:
  "tasks decoded0 = [] \<and>
   tasks (playChunk_resume (playChunkEnv decoded0) 0 100 decoded0) =
     [(2, \<lparr>purpose = ForPrefetch, index = 1,
           env = \<lparr>cl_chunks = [''A.'', ''B.'', ''C.''], cl_selectedVoice = ''Puck'',
                  cl_activeChunkIndex = 0, cl_isPlaying = True\<rparr>,
           stage = AwaitSpeech\<rparr>)] \<and>
   synthCalls (playChunk_resume (playChunkEnv decoded0) 0 100 decoded0) =
     [(Some ''A.'', ''Puck''), (Some ''B.'', ''Puck'')] \<and>
   step sentences (SpeechSettled 2 (Rejected (Thrown (Some ''offline'')))) sounding0 =
     removeTask 2 sounding0 \<and>
   error (step sentences (SpeechSettled 2 (Rejected (Thrown (Some ''offline'')))) sounding0)
     = None \<and>
   isPlaying (step sentences (SpeechSettled 2 (Rejected (Thrown (Some ''offline'')))) sounding0) \<and>
   activeChunkIndex
     (step sentences (SpeechSettled 2 (Rejected (Thrown (Some ''offline'')))) sounding0) = 0 \<and>
   tasks (step sentences (SpeechSettled 2 (Rejected (Thrown (Some ''offline'')))) sounding0) = []"
proof -
  let ?t = "\<lparr>purpose = ForPrefetch, index = 1,
           env = \<lparr>cl_chunks = [''A.'', ''B.'', ''C.''], cl_selectedVoice = ''Puck'',
                  cl_activeChunkIndex = 0, cl_isPlaying = True\<rparr>,
           stage = AwaitSpeech\<rparr>"
  have issue: "tasks (playChunk_resume (playChunkEnv decoded0) 0 100 decoded0) = [(2, ?t)]"
    and call: "synthCalls (playChunk_resume (playChunkEnv decoded0) 0 100 decoded0) =
      [(Some ''A.'', ''Puck''), (Some ''B.'', ''Puck'')]"
    using C8_prefetch_isolated [of "playChunkEnv decoded0" 0 100 decoded0 0 ?t sentences Nullish
        "()" 0]
    by (simp_all add: decoded0_fields chunkAt_def)
  have fail: "step sentences (SpeechSettled 2 (Rejected (Thrown (Some ''offline'')))) sounding0 =
      removeTask 2 sounding0"
    using C8_prefetch_isolated [of "playChunkEnv decoded0" 0 100 sounding0 2 ?t sentences
        "Thrown (Some ''offline'')" "()" 0]
    by (simp add: sounding0_tasks)
  from issue call fail show ?thesis
    by (simp add: decoded0_fields sounding0_tasks sounding0_fields removeTask_def)
qed

text \<open>
  Claim C1 asks that a resolution that settles acts only if its voice and index are still
  current and playback is still wanted.  \<^verbatim>\<open>playChunk\<close> has no such check: the \<^verbatim>\<open>if\<close> of
  line 111 is empty and \<^verbatim>\<open>isCancelled\<close> of line 158 is never read.  In \<open>superseded\<close> the
  voice is \<^verbatim>\<open>Kore\<close>, the index is 3 and nothing sounds; when the pending call for
  chunk 2 under \<^verbatim>\<open>Puck\<close> settles, its buffer is started (source 4), while voice and index
  stay \<^verbatim>\<open>Kore\<close> and 3.
\<close>

theorem C1_late_result_plays:
  "selectedVoice superseded = ''Kore'' \<and> activeChunkIndex superseded = 3 \<and>
   isPlaying superseded \<and> sounding superseded = [] \<and>
   map_of (tasks superseded) 2 =
     Some \<lparr>purpose = ForPlay, index = 2,
           env = \<lparr>cl_chunks = [''A.'', ''B.'', ''C.'', ''D.''], cl_selectedVoice = ''Puck'',
                  cl_activeChunkIndex = 0, cl_isPlaying = True\<rparr>,
           stage = AwaitSpeech\<rparr> \<and>
   sounding (run sentences [SpeechSettled 2 (Resolved ()), DecodeSettled 2 (Resolved 100)]
       superseded) = [4] \<and>
   map_of (sources (run sentences [SpeechSettled 2 (Resolved ()), DecodeSettled 2 (Resolved 100)]
       superseded)) 4 =
     Some \<lparr>src_buffer = 100, src_index = 2,
           src_env = \<lparr>cl_chunks = [''A.'', ''B.'', ''C.'', ''D.''], cl_selectedVoice = ''Puck'',
                      cl_activeChunkIndex = 0, cl_isPlaying = True\<rparr>\<rparr> \<and>
   selectedVoice (run sentences [SpeechSettled 2 (Resolved ()), DecodeSettled 2 (Resolved 100)]
       superseded) = ''Kore'' \<and>
   activeChunkIndex (run sentences [SpeechSettled 2 (Resolved ()), DecodeSettled 2 (Resolved 100)]
       superseded) = 3"
  by code_simp

text \<open>
  Claim C5 asks that the natural end of chunk \<open>i\<close> while playing advances to \<open>i + 1\<close>.
  The \<^verbatim>\<open>onended\<close> handler compares the index of its chunk with the \<^verbatim>\<open>activeChunkIndex\<close>
  of the render that created \<^verbatim>\<open>playChunk\<close>, which stays 0 after entering read mode.
  With three chunks the end of chunk 0 advances to chunk 1 (\<open>sounding1\<close>), but the
  natural end of chunk 1 (source 3) changes nothing: the index stays 1, \<open>isPlaying\<close>
  stays true, nothing sounds and nothing is pending.
\<close>

theorem C5_second_end_ignored:
  "chunks sounding1 = [''A.'', ''B.'', ''C.''] \<and> activeChunkIndex sounding0 = 0 \<and>
   activeChunkIndex sounding1 = 1 \<and> isPlaying sounding1 \<and> sounding sounding1 = [3] \<and>
   map_of (sources sounding1) 3 =
     Some \<lparr>src_buffer = 101, src_index = 1,
           src_env = \<lparr>cl_chunks = [''A.'', ''B.'', ''C.''], cl_selectedVoice = ''Puck'',
                      cl_activeChunkIndex = 0, cl_isPlaying = True\<rparr>\<rparr> \<and>
   activeChunkIndex (step sentences (Ended 3) sounding1) = 1 \<and>
   isPlaying (step sentences (Ended 3) sounding1) \<and>
   sounding (step sentences (Ended 3) sounding1) = [] \<and>
   tasks (step sentences (Ended 3) sounding1) = []"
  by code_simp

text \<open>
  Claim C6, as stated, fails: while the prefetch of chunk 1 is pending, \<^verbatim>\<open>next\<close> resolves
  the same voice and index again; the cache has no entry yet, so \<^verbatim>\<open>generateSpeech\<close> is
  called a second time for \<^verbatim>\<open>"B."\<close>.  When both calls complete, the entry written by the
  first (101) is overwritten by the second (102).  The cache was not cleared in between.
\<close>

theorem C6_overlap_counterexample:
  "synthCalls sounding0 = [(Some ''A.'', ''Puck''), (Some ''B.'', ''Puck'')] \<and>
   synthCalls (run sentences [Next] sounding0) =
     [(Some ''A.'', ''Puck''), (Some ''B.'', ''Puck''), (Some ''B.'', ''Puck'')] \<and>
   cacheClears (run sentences [Next] sounding0) = cacheClears sounding0 \<and>
   audioCacheRef (run sentences
       [Next, SpeechSettled 2 (Resolved ()), DecodeSettled 2 (Resolved 101)] sounding0)
     ''Puck-1'' = Some 101 \<and>
   audioCacheRef (run sentences
       [Next, SpeechSettled 2 (Resolved ()), DecodeSettled 2 (Resolved 101),
        SpeechSettled 3 (Resolved ()), DecodeSettled 3 (Resolved 102)] sounding0)
     ''Puck-1'' = Some 102 \<and>
   cacheClears (run sentences
       [Next, SpeechSettled 2 (Resolved ()), DecodeSettled 2 (Resolved 101),
        SpeechSettled 3 (Resolved ()), DecodeSettled 3 (Resolved 102)] sounding0)
     = cacheClears sounding0"
  by code_simp

text \<open>
  Claim C6, amended.  A resolution that finds an entry for its key returns that buffer
  and does nothing else (no call, no task, no write); a completed decoding writes the
  entry of its key; and an entry stays as it is through every event, unless the cache is
  cleared or another pending resolution of the same key completes.
\<close>

theorem C6_cache_hit:
  "(audioCacheRef s (cacheKey cl i) = Some b \<longrightarrow>
      getAudioBufferForChunk p cl i s = (Some b, s)) \<and>
   (map_of (tasks s) k = Some t \<and> stage t = AwaitDecode \<longrightarrow>
      audioCacheRef (step split (DecodeSettled k (Resolved b)) s) (cacheKey (env t) (index t))
        = Some b) \<and>
   (audioCacheRef s key = Some b \<longrightarrow>
      audioCacheRef (step split e s) key = Some b \<or>
      cacheClears s < cacheClears (step split e s) \<or>
      (\<exists>k' t' c. e = DecodeSettled k' (Resolved c) \<and> map_of (tasks s) k' = Some t' \<and>
         cacheKey (env t') (index t') = key))"
  using step_cache_entry[of s key b split e] step_decode_writes[of s k t split b]
  by (simp add: getAudioBufferForChunk_def)


theorem C6_cache_hit_witness:
  "getAudioBufferForChunk ForPlay (playChunkEnv sounding0) 0 sounding0 = (Some 100, sounding0) \<and>
   audioCacheRef (step sentences Next sounding0) ''Puck-0'' = Some 100"
  using C6_cache_hit [of sounding0 "playChunkEnv sounding0" 0 100 ForPlay 0 _ sentences
      "''Puck-0''" Next]
  by (simp add: sounding0_fields sounding0_more)

text \<open>
  Claim C2 asks that entering read mode and changing the voice leave an empty cache
  before a resolution for the new state is issued, and that entering read mode resets
  the index.  A change of voice does so (\<open>step_ChangeVoice\<close>), the index is reset
  (\<open>step_startReading\<close>), and on every run without a late write read mode starts from an
  empty cache (\<open>startReading_clean\<close>): \<^verbatim>\<open>handlePlayPause\<close> relies on the effect of lines
  42-47, which clears the cache in edit mode, as the comments of lines 27-28 and 41 say.
  The write of line 94 is not guarded, though.  In \<open>stale_cache\<close> the call issued for the
  old text \<^verbatim>\<open>"A."\<close> settled in edit mode, after the text was changed to \<^verbatim>\<open>"B."\<close>;
  play/pause then enters read mode with the entry \<^verbatim>\<open>Puck-0\<close> still in the cache, and the
  first resolution for the new text is served from it, without a call of
  \<^verbatim>\<open>generateSpeech\<close>: the buffer made for \<^verbatim>\<open>"A."\<close> sounds for \<^verbatim>\<open>"B."\<close>.
\<close>

theorem C2_stale_entry_served:
  "mode stale_cache = Edit \<and> text stale_cache = ''B.'' \<and>
   audioCacheRef stale_cache ''Puck-0'' = Some 100 \<and>
   mode (step sentences PlayPause stale_cache) = Read \<and>
   chunks (step sentences PlayPause stale_cache) = [''B.''] \<and>
   activeChunkIndex (step sentences PlayPause stale_cache) = 0 \<and>
   audioCacheRef (step sentences PlayPause stale_cache) ''Puck-0'' = Some 100 \<and>
   cacheClears (step sentences PlayPause stale_cache) = cacheClears stale_cache \<and>
   synthCalls (step sentences PlayPause stale_cache) = [(Some ''A.'', ''Puck'')] \<and>
   sounding (step sentences PlayPause stale_cache) = [2] \<and>
   map (src_buffer \<circ> snd) (sources (step sentences PlayPause stale_cache)) = [100, 100]"
  by code_simp

end
